theory Spec2Isabelle
  imports Complex_Main
begin

section \<open>The countdown component of \<open>src/Countdown.vue\<close>\<close>

text \<open>
  Numbers. A JavaScript number is a double; the props \<open>time\<close> and \<open>interval\<close> accept any of
  them, fractions too. The model takes every number of the component (the props, the
  fields \<open>totalMilliseconds\<close> and \<open>endTime\<close>, the readings of \<open>now()\<close>, the timestamps of
  the animation frames) as a \<open>rat\<close>: every finite double is one, and the arithmetic is
  exact where doubles round.

  \<open>Math.floor\<close> is \<open>floor\<close>. JavaScript's \<open>a % b\<close> is the remainder of the truncating
  division, \<open>a - b * trunc (a / b)\<close>, which takes the sign of \<open>a\<close>.
\<close>

definition js_rem :: "rat \<Rightarrow> rat \<Rightarrow> rat" where
  "js_rem a b = a - b * of_int (if a / b < 0 then \<lceil>a / b\<rceil> else \<lfloor>a / b\<rfloor>)"

subsection \<open>Constants\<close>

definition MILLISECONDS_SECOND :: rat where
  "MILLISECONDS_SECOND = 1000"

definition MILLISECONDS_MINUTE :: rat where
  "MILLISECONDS_MINUTE = 60 * MILLISECONDS_SECOND"

definition MILLISECONDS_HOUR :: rat where
  "MILLISECONDS_HOUR = 60 * MILLISECONDS_MINUTE"

definition MILLISECONDS_DAY :: rat where
  "MILLISECONDS_DAY = 24 * MILLISECONDS_HOUR"

subsection \<open>Data\<close>

text \<open>The reactive object \<open>data\<close> (the interface \<open>CountdownInterface\<close>).\<close>

record CountdownInterface =
  counting :: bool
  endTime :: rat
  totalMilliseconds :: rat
  requestId :: nat

text \<open>The names of its fields, for the bookkeeping of the reactive effect below.\<close>

datatype field = Counting | EndTime | TotalMilliseconds | RequestId

text \<open>
  The props that \<open>setup\<close> destructures (plain values from then on, not reactive). The prop
  \<open>now\<close> is a function reading a clock; the model keeps the value it returns in the host
  state (\<open>clock\<close> below).
\<close>

record props =
  autoStart :: bool
  emitEvents :: bool
  interval :: rat
  time :: rat

text \<open>The validators declared with the props \<open>interval\<close> and \<open>time\<close>.\<close>

definition interval_validator :: "rat \<Rightarrow> bool" where
  "interval_validator v = (v \<ge> 0)"

definition time_validator :: "rat \<Rightarrow> bool" where
  "time_validator v = (v \<ge> 0)"

text \<open>
  What \<open>emit\<close> sends. The payload of \<open>progress\<close> holds the number
  \<open>data.totalMilliseconds\<close>; its other entries are the computed references themselves, which
  a listener reads later, so the model keeps the number only.
\<close>

datatype event = EvStart | EvProgress rat | EvAbort | EvEnd

datatype visibility = Visible | Hidden

text \<open>
  The closure \<open>step\<close> that \<open>continuance\<close> builds: the constant \<open>delay\<close> and the two
  variables \<open>init\<close> and \<open>prev\<close>, which are undefined (\<open>None\<close>) until the first call.
\<close>

record step_closure =
  delay :: rat
  init :: "rat option"
  prev :: "rat option"

text \<open>
  The component together with the part of the browser and of the framework it talks to:
  the emitted events in order, the callbacks registered with \<open>requestAnimationFrame\<close> and
  not yet run or cancelled (handle and closure, oldest first), the next handle the browser
  hands out, \<open>document.visibilityState\<close>, the value that \<open>now()\<close> returns, and for the
  effect that \<open>setup\<close> registers with \<open>watchEffect\<close>: the fields of \<open>data\<close> it read in its
  last run (\<open>deps\<close>) and whether the framework has queued it to run again (\<open>queued\<close>).
\<close>

record host =
  data :: CountdownInterface
  emitted :: "event list"
  callbacks :: "(nat \<times> step_closure) list"
  nextHandle :: nat
  visibilityState :: visibility
  clock :: rat
  deps :: "field list"
  queued :: bool

subsection \<open>The computed values\<close>

definition days :: "CountdownInterface \<Rightarrow> int" where
  "days d = \<lfloor>totalMilliseconds d / MILLISECONDS_DAY\<rfloor>"

definition hours :: "CountdownInterface \<Rightarrow> int" where
  "hours d = \<lfloor>js_rem (totalMilliseconds d) MILLISECONDS_DAY / MILLISECONDS_HOUR\<rfloor>"

definition minutes :: "CountdownInterface \<Rightarrow> int" where
  "minutes d = \<lfloor>js_rem (totalMilliseconds d) MILLISECONDS_HOUR / MILLISECONDS_MINUTE\<rfloor>"

definition seconds :: "CountdownInterface \<Rightarrow> int" where
  "seconds d = \<lfloor>js_rem (totalMilliseconds d) MILLISECONDS_MINUTE / MILLISECONDS_SECOND\<rfloor>"

definition milliseconds :: "CountdownInterface \<Rightarrow> int" where
  "milliseconds d = \<lfloor>js_rem (totalMilliseconds d) MILLISECONDS_SECOND\<rfloor>"

definition totalHours :: "CountdownInterface \<Rightarrow> int" where
  "totalHours d = \<lfloor>totalMilliseconds d / MILLISECONDS_HOUR\<rfloor>"

definition totalMinutes :: "CountdownInterface \<Rightarrow> int" where
  "totalMinutes d = \<lfloor>totalMilliseconds d / MILLISECONDS_MINUTE\<rfloor>"

definition totalSeconds :: "CountdownInterface \<Rightarrow> int" where
  "totalSeconds d = \<lfloor>totalMilliseconds d / MILLISECONDS_SECOND\<rfloor>"

subsection \<open>The browser's side\<close>

definition emit :: "event \<Rightarrow> host \<Rightarrow> host" where
  "emit e w = w\<lparr>emitted := emitted w @ [e]\<rparr>"

text \<open>\<open>requestAnimationFrame\<close> registers the callback and returns a fresh handle.\<close>

definition requestAnimationFrame :: "step_closure \<Rightarrow> host \<Rightarrow> nat \<times> host" where
  "requestAnimationFrame c w =
     (nextHandle w,
      w\<lparr>callbacks := callbacks w @ [(nextHandle w, c)], nextHandle := Suc (nextHandle w)\<rparr>)"

text \<open>\<open>cancelAnimationFrame\<close> drops the callback registered under the handle, if any.\<close>

definition cancelAnimationFrame :: "nat \<Rightarrow> host \<Rightarrow> host" where
  "cancelAnimationFrame h w = w\<lparr>callbacks := filter (\<lambda>hc. fst hc \<noteq> h) (callbacks w)\<rparr>"

subsection \<open>Reading and writing the reactive object\<close>

text \<open>
  \<open>data\<close> is reactive. While the effect of \<open>setup\<close> runs (the flag \<open>a\<close>, for the active
  effect), every field of \<open>data\<close> that is read becomes one of its dependencies. A write
  that changes a field on which the effect depends queues the effect to run again, unless
  the write is made by the running effect itself. The effect calls \<open>start\<close>, which calls
  \<open>continuance\<close>, \<open>end\<close> and \<open>pause\<close>: these methods take the flag. The other methods run
  only when no effect is active, where reading records nothing.
\<close>

definition track :: "bool \<Rightarrow> field \<Rightarrow> host \<Rightarrow> host" where
  "track a f w = (if a then w\<lparr>deps := List.insert f (deps w)\<rparr> else w)"

definition trigger :: "bool \<Rightarrow> field \<Rightarrow> bool \<Rightarrow> host \<Rightarrow> host" where
  "trigger a f changed w =
     (if changed \<and> \<not> a \<and> f \<in> set (deps w) then w\<lparr>queued := True\<rparr> else w)"

definition set_counting :: "bool \<Rightarrow> bool \<Rightarrow> host \<Rightarrow> host" where
  "set_counting a v w =
     trigger a Counting (counting (data w) \<noteq> v) (w\<lparr>data := (data w)\<lparr>counting := v\<rparr>\<rparr>)"

definition set_endTime :: "bool \<Rightarrow> rat \<Rightarrow> host \<Rightarrow> host" where
  "set_endTime a v w =
     trigger a EndTime (endTime (data w) \<noteq> v) (w\<lparr>data := (data w)\<lparr>endTime := v\<rparr>\<rparr>)"

definition set_totalMilliseconds :: "bool \<Rightarrow> rat \<Rightarrow> host \<Rightarrow> host" where
  "set_totalMilliseconds a v w =
     trigger a TotalMilliseconds (totalMilliseconds (data w) \<noteq> v)
       (w\<lparr>data := (data w)\<lparr>totalMilliseconds := v\<rparr>\<rparr>)"

definition set_requestId :: "bool \<Rightarrow> nat \<Rightarrow> host \<Rightarrow> host" where
  "set_requestId a v w =
     trigger a RequestId (requestId (data w) \<noteq> v) (w\<lparr>data := (data w)\<lparr>requestId := v\<rparr>\<rparr>)"

subsection \<open>The methods of the component\<close>

definition pause :: "bool \<Rightarrow> host \<Rightarrow> host" where
  "pause a w =
     (let w1 = track a RequestId w
      in cancelAnimationFrame (requestId (data w1)) w1)"

definition end_countdown :: "bool \<Rightarrow> props \<Rightarrow> host \<Rightarrow> host" where
  "end_countdown a p w =
     (let w0 = track a Counting w
      in if \<not> counting (data w0) then w0
         else
           let w1 = pause a w0;
               w2 = set_totalMilliseconds a 0 w1;
               w3 = set_counting a False w2
           in if emitEvents p then emit EvEnd w3 else w3)"

text \<open>
  \<open>continuance\<close> registers a fresh closure \<open>step\<close> (its \<open>init\<close> and \<open>prev\<close> undefined) and
  stores the handle in \<open>data.requestId\<close>, or ends the countdown.
\<close>

definition continuance :: "bool \<Rightarrow> props \<Rightarrow> host \<Rightarrow> host" where
  "continuance a p w =
     (let w0 = track a Counting w
      in if \<not> counting (data w0) then w0
         else
           let w1 = track a TotalMilliseconds w0;
               d = min (totalMilliseconds (data w1)) (interval p)
           in if d > 0 then
                (case requestAnimationFrame \<lparr>delay = d, init = None, prev = None\<rparr> w1 of
                   (h, w2) \<Rightarrow> set_requestId a h w2)
              else end_countdown a p w1)"

definition progress :: "props \<Rightarrow> host \<Rightarrow> host" where
  "progress p w =
     (if \<not> counting (data w) then w
      else
        let w1 = set_totalMilliseconds False (totalMilliseconds (data w) - interval p) w;
            w2 = (if emitEvents p \<and> totalMilliseconds (data w1) > 0
                  then emit (EvProgress (totalMilliseconds (data w1))) w1 else w1)
        in continuance False p w2)"

text \<open>
  \<open>if (!init) init = _now\<close>: the test \<open>!init\<close> holds when the variable is undefined and also
  when it is the number zero. \<open>orElse v t\<close> is the variable's value after the statement.
\<close>

definition orElse :: "rat option \<Rightarrow> rat \<Rightarrow> rat" where
  "orElse v t = (case v of None \<Rightarrow> t | Some x \<Rightarrow> if x = 0 then t else x)"

text \<open>
  One call \<open>step(_now)\<close> of the closure \<open>c\<close>. When it registers itself again, the closure
  the next call sees has \<open>prev = _now\<close>, the assignment that ends the body.
\<close>

definition step :: "props \<Rightarrow> step_closure \<Rightarrow> rat \<Rightarrow> host \<Rightarrow> host" where
  "step p c tnow w =
     (let init1 = orElse (init c) tnow;
          prev1 = orElse (prev c) tnow;
          range = tnow - init1
      in if range \<ge> delay c \<or> range + ((tnow - prev1) / 2) \<ge> delay c
         then progress p w
         else
           (case requestAnimationFrame (c\<lparr>init := Some init1, prev := Some tnow\<rparr>) w of
              (h, w1) \<Rightarrow> set_requestId False h w1))"

definition start :: "bool \<Rightarrow> props \<Rightarrow> host \<Rightarrow> host" where
  "start a p w =
     (let w0 = track a Counting w
      in if counting (data w0) then w0
         else
           let w1 = set_counting a True w0;
               w2 = (if emitEvents p then emit EvStart w1 else w1)
           in if visibilityState w2 = Visible then continuance a p w2 else w2)"

definition abort :: "props \<Rightarrow> host \<Rightarrow> host" where
  "abort p w =
     (if \<not> counting (data w) then w
      else
        let w1 = pause False w;
            w2 = set_counting False False w1
        in if emitEvents p then emit EvAbort w2 else w2)"

definition update :: "host \<Rightarrow> host" where
  "update w =
     (if counting (data w)
      then set_totalMilliseconds False (max 0 (endTime (data w) - clock w)) w
      else w)"

definition handleVisibilityChange :: "props \<Rightarrow> host \<Rightarrow> host" where
  "handleVisibilityChange p w =
     (case visibilityState w of
        Visible \<Rightarrow> continuance False p (update w)
      | Hidden \<Rightarrow> pause False w)"

subsection \<open>The effect of \<open>setup\<close>\<close>

text \<open>
  One run of the function that \<open>setup\<close> hands to \<open>watchEffect\<close>. The run is the active
  effect; the dependencies of the last run are dropped and collected anew.
\<close>

definition watchEffect :: "props \<Rightarrow> host \<Rightarrow> host" where
  "watchEffect p w =
     (let w0 = w\<lparr>deps := []\<rparr>;
          w1 = set_totalMilliseconds True (time p) w0;
          w2 = set_endTime True (clock w1 + time p) w1
      in if autoStart p then start True p w2 else w2)"

text \<open>
  \<open>setup\<close> in a document whose visibility is \<open>v\<close>, with \<open>now()\<close> returning \<open>clk\<close>:
  \<open>watchEffect\<close> runs the effect at once. The props are used as given: \<open>setup\<close> has no check
  of its own.
\<close>

definition setup_countdown :: "props \<Rightarrow> visibility \<Rightarrow> rat \<Rightarrow> host" where
  "setup_countdown p v clk =
     watchEffect p
       \<lparr>data = \<lparr>counting = False, endTime = 0, totalMilliseconds = 0, requestId = 0\<rparr>,
        emitted = [], callbacks = [], nextHandle = 1, visibilityState = v, clock = clk,
        deps = [], queued = False\<rparr>"

text \<open>
  When the piece of script that wrote to \<open>data\<close> has returned, the framework runs the
  queued effect.
\<close>

definition flush :: "props \<Rightarrow> host \<Rightarrow> host" where
  "flush p w = (if queued w then watchEffect p (w\<lparr>queued := False\<rparr>) else w)"

subsection \<open>What can happen to a mounted component\<close>

text \<open>
  The browser runs an animation frame with timestamp \<open>t\<close>: it takes the handles registered
  when the frame begins and, for each one still registered at its turn, removes the callback
  and calls it; the queued effect runs after each callback.
\<close>

definition runCallback :: "props \<Rightarrow> rat \<Rightarrow> nat \<Rightarrow> host \<Rightarrow> host" where
  "runCallback p t h w =
     (case map_of (callbacks w) h of
        None \<Rightarrow> w
      | Some c \<Rightarrow> flush p (step p c t (cancelAnimationFrame h w)))"

definition animationFrame :: "props \<Rightarrow> rat \<Rightarrow> host \<Rightarrow> host" where
  "animationFrame p t w = fold (runCallback p t) (map fst (callbacks w)) w"

text \<open>
  The methods that \<open>setup\<close> returns, called from outside, and the three things the browser
  does: an animation frame, a change of the document's visibility (which calls the listener
  registered in \<open>onMounted\<close>), and the passing of time on the clock that \<open>now()\<close> reads.
  \<open>perform\<close> is the call itself, \<open>act\<close> the call followed by the queued effect.
\<close>

datatype action =
    Start | Continuance | Pause | Progress | Abort | End | Update | HandleVisibilityChange
  | AnimationFrame rat | VisibilityChange visibility | ClockSet rat

fun perform :: "props \<Rightarrow> action \<Rightarrow> host \<Rightarrow> host" where
  "perform p Start w = start False p w"
| "perform p Continuance w = continuance False p w"
| "perform p Pause w = pause False w"
| "perform p Progress w = progress p w"
| "perform p Abort w = abort p w"
| "perform p End w = end_countdown False p w"
| "perform p Update w = update w"
| "perform p HandleVisibilityChange w = handleVisibilityChange p w"
| "perform p (AnimationFrame t) w = animationFrame p t w"
| "perform p (VisibilityChange v) w = handleVisibilityChange p (w\<lparr>visibilityState := v\<rparr>)"
| "perform p (ClockSet t) w = w\<lparr>clock := t\<rparr>"

definition act :: "props \<Rightarrow> action \<Rightarrow> host \<Rightarrow> host" where
  "act p x w = flush p (perform p x w)"

definition run :: "props \<Rightarrow> action list \<Rightarrow> host \<Rightarrow> host" where
  "run p acts w = fold (act p) acts w"

subsection \<open>Reading the event log\<close>


text \<open>A \<open>progress\<close> event with a payload above zero; any other event.\<close>

fun positive_payload :: "event \<Rightarrow> bool" where
  "positive_payload (EvProgress n) = (0 < n)"
| "positive_payload e = True"

definition progress_positive :: "host \<Rightarrow> bool" where
  "progress_positive w = list_all positive_payload (emitted w)"

subsection \<open>The expected log of a run\<close>











subsection \<open>Example configurations\<close>

definition example_props :: props where
  "example_props = \<lparr>autoStart = True, emitEvents = True, interval = 1000, time = 3000\<rparr>"

definition manual_props :: props where
  "manual_props = \<lparr>autoStart = False, emitEvents = True, interval = 1000, time = 3000\<rparr>"

definition example_frames :: "rat list" where
  "example_frames = [16, 516, 1016, 1032, 1532, 2032, 2048, 2548, 3048]"


definition unchecked_props :: props where
  "unchecked_props = \<lparr>autoStart = False, emitEvents = True, interval = 1000, time = - 5\<rparr>"

definition negative_props :: props where
  "negative_props = \<lparr>autoStart = True, emitEvents = True, interval = 1000, time = - 5\<rparr>"


definition ten_second_props :: props where
  "ten_second_props = \<lparr>autoStart = True, emitEvents = True, interval = 1000, time = 10000\<rparr>"

definition manual_ten_second_props :: props where
  "manual_ten_second_props =
     \<lparr>autoStart = False, emitEvents = True, interval = 1000, time = 10000\<rparr>"

text \<open>
  Two steps of a countdown with the clock following the animation frames, then the
  document is hidden when the clock reads 2500 and visible again when it reads 7500.
\<close>

definition clocked_scenario :: "action list" where
  "clocked_scenario =
     [ClockSet 16, AnimationFrame 16, ClockSet 516, AnimationFrame 516,
      ClockSet 1016, AnimationFrame 1016, ClockSet 1032, AnimationFrame 1032,
      ClockSet 1532, AnimationFrame 1532, ClockSet 2032, AnimationFrame 2032,
      ClockSet 2048, AnimationFrame 2048,
      ClockSet 2500, VisibilityChange Hidden, ClockSet 7500, VisibilityChange Visible]"

section \<open>Properties of the computed values\<close>

lemmas unit_defs = MILLISECONDS_DAY_def MILLISECONDS_HOUR_def MILLISECONDS_MINUTE_def
  MILLISECONDS_SECOND_def

lemma js_rem_nonneg:
  assumes "0 \<le> a" "0 < b"
  shows "js_rem a b = a - b * of_int \<lfloor>a / b\<rfloor>" and "0 \<le> js_rem a b" and "js_rem a b < b"
proof -
  have q: "\<not> a / b < 0"
    using assms by (simp add: not_less)
  then show e: "js_rem a b = a - b * of_int \<lfloor>a / b\<rfloor>"
    by (simp add: js_rem_def)
  have nz: "b * (a / b) = a"
    using assms(2) by simp
  have "b * of_int \<lfloor>a / b\<rfloor> \<le> b * (a / b)"
    using assms(2) by (intro mult_left_mono of_int_floor_le) simp
  then show "0 \<le> js_rem a b"
    unfolding e nz by simp
  have "a / b < of_int \<lfloor>a / b\<rfloor> + 1"
    by linarith
  then have "b * (a / b) < b * (of_int \<lfloor>a / b\<rfloor> + 1)"
    using assms(2) by (intro mult_strict_left_mono)
  then show "js_rem a b < b"
    unfolding e nz by (simp add: algebra_simps)
qed

lemma js_rem_of_int:
  assumes "0 \<le> n" "0 < m"
  shows "js_rem (of_int n) (of_int m) = of_int (n mod m)"
proof -
  have "js_rem (of_int n) (of_int m) = of_int n - of_int m * of_int \<lfloor>(of_int n :: rat) / of_int m\<rfloor>"
    using assms by (intro js_rem_nonneg(1)) simp_all
  also have "\<lfloor>(of_int n :: rat) / of_int m\<rfloor> = n div m"
    by (rule floor_divide_of_int_eq)
  also have "(of_int n :: rat) - of_int m * of_int (n div m) = of_int (n - m * (n div m))"
    by simp
  also have "n - m * (n div m) = n mod m"
    by (simp add: minus_mult_div_eq_mod)
  finally show ?thesis .
qed

lemma floor_div_of_int: "\<lfloor>(of_int x :: rat) / of_int y\<rfloor> = x div y"
  by (rule floor_divide_of_int_eq)

lemma unit_of_int:
  "MILLISECONDS_DAY = of_int 86400000" "MILLISECONDS_HOUR = of_int 3600000"
  "MILLISECONDS_MINUTE = of_int 60000" "MILLISECONDS_SECOND = of_int 1000"
  by (simp_all add: unit_defs)

lemma computed_of_int:
  assumes "totalMilliseconds d = of_int n" "0 \<le> n"
  shows "days d = n div 86400000"
    and "hours d = (n mod 86400000) div 3600000"
    and "minutes d = (n mod 3600000) div 60000"
    and "seconds d = (n mod 60000) div 1000"
    and "milliseconds d = n mod 1000"
  unfolding days_def hours_def minutes_def seconds_def milliseconds_def assms(1) unit_of_int
  using assms(2) by (simp_all only: js_rem_of_int floor_div_of_int floor_of_int)

lemma floor_le_const: "(x::rat) < of_int (q + 1) * k \<Longrightarrow> 0 < k \<Longrightarrow> \<lfloor>x / k\<rfloor> \<le> q"
proof -
  assume a: "x < of_int (q + 1) * k" "0 < k"
  then have "x / k < of_int (q + 1)"
    by (simp add: pos_divide_less_eq)
  then have "\<lfloor>x / k\<rfloor> < q + 1"
    by (simp only: floor_less_iff)
  then show ?thesis by simp
qed

text \<open>
  C4. For every non-negative integer number of remaining milliseconds, days, hours,
  minutes, seconds and milliseconds, each computed from the same value, recombine to it
  with their unit weights.
\<close>

theorem breakdown_recombines:
  assumes "totalMilliseconds d = of_int n" and "0 \<le> n"
  shows "of_int (days d) * 86400000 + of_int (hours d) * 3600000 + of_int (minutes d) * 60000
           + of_int (seconds d) * 1000 + of_int (milliseconds d) = totalMilliseconds d"
proof -
  have s: "n mod 60000 = (n mod 60000) div 1000 * 1000 + n mod 1000"
    using div_mult_mod_eq [of "n mod 60000" 1000] by (simp add: mod_mod_cancel)
  have m: "n mod 3600000 = (n mod 3600000) div 60000 * 60000 + n mod 60000"
    using div_mult_mod_eq [of "n mod 3600000" 60000] by (simp add: mod_mod_cancel)
  have h: "n mod 86400000 = (n mod 86400000) div 3600000 * 3600000 + n mod 3600000"
    using div_mult_mod_eq [of "n mod 86400000" 3600000] by (simp add: mod_mod_cancel)
  have dd: "n = n div 86400000 * 86400000 + n mod 86400000"
    by simp
  have "days d * 86400000 + hours d * 3600000 + minutes d * 60000 + seconds d * 1000
      + milliseconds d = n"
    unfolding computed_of_int [OF assms] using s m h dd by linarith
  then have "(of_int (days d * 86400000 + hours d * 3600000 + minutes d * 60000
      + seconds d * 1000 + milliseconds d) :: rat) = of_int n"
    by simp
  then show ?thesis
    unfolding assms(1) by simp
qed

theorem breakdown_recombines_witness:
  "totalMilliseconds \<lparr>counting = True, endTime = 0, totalMilliseconds = 90125, requestId = 0\<rparr>
     = of_int 90125
   \<and> (0::int) \<le> 90125
   \<and> of_int (days \<lparr>counting = True, endTime = 0, totalMilliseconds = 90125, requestId = 0\<rparr>)
       * 86400000
     + of_int (hours \<lparr>counting = True, endTime = 0, totalMilliseconds = 90125, requestId = 0\<rparr>)
       * 3600000
     + of_int (minutes \<lparr>counting = True, endTime = 0, totalMilliseconds = 90125, requestId = 0\<rparr>)
       * 60000
     + of_int (seconds \<lparr>counting = True, endTime = 0, totalMilliseconds = 90125, requestId = 0\<rparr>)
       * 1000
     + of_int (milliseconds
         \<lparr>counting = True, endTime = 0, totalMilliseconds = 90125, requestId = 0\<rparr>)
     = (90125 :: rat)
   \<and> minutes \<lparr>counting = True, endTime = 0, totalMilliseconds = 90125, requestId = 0\<rparr> = 1
   \<and> seconds \<lparr>counting = True, endTime = 0, totalMilliseconds = 90125, requestId = 0\<rparr> = 30
   \<and> milliseconds \<lparr>counting = True, endTime = 0, totalMilliseconds = 90125, requestId = 0\<rparr>
       = 125"
proof -
  have t: "totalMilliseconds
      \<lparr>counting = True, endTime = 0, totalMilliseconds = 90125, requestId = 0\<rparr> = of_int 90125"
    by simp
  have n: "(0::int) \<le> 90125"
    by simp
  note c = computed_of_int [OF t n]
  show ?thesis
    using breakdown_recombines [OF t n] t n unfolding c(3,4,5) by simp
qed

text \<open>
  C10. For every non-negative number of remaining milliseconds, whole or not, the unit
  fields stay in their ranges: hours in 0..23, minutes and seconds in 0..59, milliseconds
  in 0..999; days is non-negative and has no upper bound of its own.
\<close>

theorem breakdown_bounds:
  assumes "0 \<le> totalMilliseconds d"
  shows "0 \<le> hours d \<and> hours d \<le> 23 \<and> 0 \<le> minutes d \<and> minutes d \<le> 59
         \<and> 0 \<le> seconds d \<and> seconds d \<le> 59 \<and> 0 \<le> milliseconds d \<and> milliseconds d \<le> 999
         \<and> 0 \<le> days d"
proof -
  let ?t = "totalMilliseconds d"
  note D = js_rem_nonneg(2,3) [OF assms, of 86400000]
  note H = js_rem_nonneg(2,3) [OF assms, of 3600000]
  note M = js_rem_nonneg(2,3) [OF assms, of 60000]
  note S = js_rem_nonneg(2,3) [OF assms, of 1000]
  have h: "\<lfloor>js_rem ?t 86400000 / 3600000\<rfloor> \<le> 23"
    using D by (intro floor_le_const) simp_all
  have m: "\<lfloor>js_rem ?t 3600000 / 60000\<rfloor> \<le> 59"
    using H by (intro floor_le_const) simp_all
  have s: "\<lfloor>js_rem ?t 60000 / 1000\<rfloor> \<le> 59"
    using M by (intro floor_le_const) simp_all
  have ms: "\<lfloor>js_rem ?t 1000\<rfloor> \<le> 999"
    using S floor_le_const [of "js_rem ?t 1000" 999 1] by simp
  have nn: "0 \<le> \<lfloor>js_rem ?t 86400000 / 3600000\<rfloor>" "0 \<le> \<lfloor>js_rem ?t 3600000 / 60000\<rfloor>"
    "0 \<le> \<lfloor>js_rem ?t 60000 / 1000\<rfloor>" "0 \<le> \<lfloor>js_rem ?t 1000\<rfloor>" "0 \<le> \<lfloor>?t / 86400000\<rfloor>"
    using D H M S assms by simp_all
  show ?thesis
    using h m s ms nn
    by (simp add: days_def hours_def minutes_def seconds_def milliseconds_def unit_defs)
qed

theorem breakdown_bounds_witness:
  "0 \<le> totalMilliseconds
      \<lparr>counting = False, endTime = 0, totalMilliseconds = 172799999, requestId = 0\<rparr>
   \<and> hours \<lparr>counting = False, endTime = 0, totalMilliseconds = 172799999, requestId = 0\<rparr> \<le> 23
   \<and> hours \<lparr>counting = False, endTime = 0, totalMilliseconds = 172799999, requestId = 0\<rparr> = 23
   \<and> minutes \<lparr>counting = False, endTime = 0, totalMilliseconds = 172799999, requestId = 0\<rparr> = 59
   \<and> seconds \<lparr>counting = False, endTime = 0, totalMilliseconds = 172799999, requestId = 0\<rparr> = 59
   \<and> milliseconds \<lparr>counting = False, endTime = 0, totalMilliseconds = 172799999, requestId = 0\<rparr>
       = 999"
proof -
  have t: "totalMilliseconds
      \<lparr>counting = False, endTime = 0, totalMilliseconds = 172799999, requestId = 0\<rparr>
      = of_int 172799999"
    by simp
  have n: "(0::int) \<le> 172799999"
    by simp
  note c = computed_of_int [OF t n]
  show ?thesis
    using breakdown_bounds
      [of "\<lparr>counting = False, endTime = 0, totalMilliseconds = 172799999, requestId = 0\<rparr>"]
    unfolding c by simp
qed

section \<open>Reading, writing and lifting\<close>

lemmas access_defs = track_def trigger_def set_counting_def set_endTime_def
  set_totalMilliseconds_def set_requestId_def

lemmas method_defs = emit_def requestAnimationFrame_def cancelAnimationFrame_def access_defs
  pause_def end_countdown_def continuance_def progress_def step_def start_def abort_def
  update_def handleVisibilityChange_def

lemmas eval_defs = method_defs watchEffect_def flush_def runCallback_def animationFrame_def
  act_def run_def setup_countdown_def orElse_def Let_def

lemmas body_defs = emit_def requestAnimationFrame_def cancelAnimationFrame_def
  pause_def end_countdown_def continuance_def progress_def step_def start_def abort_def
  update_def handleVisibilityChange_def

lemmas set_defs = set_counting_def set_endTime_def set_totalMilliseconds_def set_requestId_def

lemma track_fields [simp]:
  "data (track a f w) = data w" "emitted (track a f w) = emitted w"
  "callbacks (track a f w) = callbacks w" "nextHandle (track a f w) = nextHandle w"
  "visibilityState (track a f w) = visibilityState w" "clock (track a f w) = clock w"
  "queued (track a f w) = queued w"
  by (simp_all add: track_def)

lemma trigger_fields [simp]:
  "data (trigger a f c w) = data w" "emitted (trigger a f c w) = emitted w"
  "callbacks (trigger a f c w) = callbacks w" "nextHandle (trigger a f c w) = nextHandle w"
  "visibilityState (trigger a f c w) = visibilityState w" "clock (trigger a f c w) = clock w"
  "deps (trigger a f c w) = deps w"
  by (simp_all add: trigger_def)

lemma set_counting_fields [simp]:
  "data (set_counting a v w) = (data w)\<lparr>counting := v\<rparr>"
  "emitted (set_counting a v w) = emitted w" "callbacks (set_counting a v w) = callbacks w"
  "nextHandle (set_counting a v w) = nextHandle w"
  "visibilityState (set_counting a v w) = visibilityState w"
  "clock (set_counting a v w) = clock w" "deps (set_counting a v w) = deps w"
  by (simp_all add: set_counting_def)

lemma set_endTime_fields [simp]:
  "data (set_endTime a v w) = (data w)\<lparr>endTime := v\<rparr>"
  "emitted (set_endTime a v w) = emitted w" "callbacks (set_endTime a v w) = callbacks w"
  "nextHandle (set_endTime a v w) = nextHandle w"
  "visibilityState (set_endTime a v w) = visibilityState w"
  "clock (set_endTime a v w) = clock w" "deps (set_endTime a v w) = deps w"
  by (simp_all add: set_endTime_def)

lemma set_totalMilliseconds_fields [simp]:
  "data (set_totalMilliseconds a v w) = (data w)\<lparr>totalMilliseconds := v\<rparr>"
  "emitted (set_totalMilliseconds a v w) = emitted w"
  "callbacks (set_totalMilliseconds a v w) = callbacks w"
  "nextHandle (set_totalMilliseconds a v w) = nextHandle w"
  "visibilityState (set_totalMilliseconds a v w) = visibilityState w"
  "clock (set_totalMilliseconds a v w) = clock w" "deps (set_totalMilliseconds a v w) = deps w"
  by (simp_all add: set_totalMilliseconds_def)

lemma set_requestId_fields [simp]:
  "data (set_requestId a v w) = (data w)\<lparr>requestId := v\<rparr>"
  "emitted (set_requestId a v w) = emitted w" "callbacks (set_requestId a v w) = callbacks w"
  "nextHandle (set_requestId a v w) = nextHandle w"
  "visibilityState (set_requestId a v w) = visibilityState w"
  "clock (set_requestId a v w) = clock w" "deps (set_requestId a v w) = deps w"
  by (simp_all add: set_requestId_def)

lemma track_False [simp]: "track False f w = w"
  by (simp add: track_def)

lemma track_True: "track True f w = w\<lparr>deps := List.insert f (deps w)\<rparr>"
  by (simp add: track_def)

lemma trigger_active [simp]: "trigger True f c w = w"
  by (simp add: trigger_def)

lemma trigger_idle: "trigger False f c w = (if c \<and> f \<in> set (deps w) then w\<lparr>queued := True\<rparr> else w)"
  by (simp add: trigger_def)

lemma trigger_quiet [simp]: "deps w = [] \<Longrightarrow> trigger a f c w = w"
  by (simp add: trigger_def)


lemmas effect_defs = setup_countdown_def watchEffect_def body_defs set_defs track_True Let_def

lemma fold_preserves:
  assumes "\<And>x s. P s \<Longrightarrow> P (f x s)" and "P s"
  shows "P (fold f xs s)"
  using assms(2) by (induction xs arbitrary: s) (simp_all add: assms(1))

lemma animationFrame_preserves:
  assumes c: "\<And>h w. P w \<Longrightarrow> P (cancelAnimationFrame h w)"
    and s: "\<And>c w. P w \<Longrightarrow> P (step p c t w)"
    and f: "\<And>w. P w \<Longrightarrow> P (flush p w)"
    and w: "P w"
  shows "P (animationFrame p t w)"
  unfolding animationFrame_def
proof (rule fold_preserves [where P = P])
  fix h w assume "P w"
  then show "P (runCallback p t h w)"
    by (simp add: runCallback_def c s f split: option.splits)
qed (rule w)









section \<open>Example runs\<close>


lemma manual_two_ticks:
  "run manual_props (Start # map AnimationFrame [16, 516, 1016, 1032, 1532, 2032])
     (setup_countdown manual_props Visible 0)
   = \<lparr>data = \<lparr>counting = True, endTime = 3000, totalMilliseconds = 1000, requestId = 7\<rparr>,
      emitted = [EvStart, EvProgress 2000, EvProgress 1000],
      callbacks = [(7, \<lparr>delay = 1000, init = None, prev = None\<rparr>)],
      nextHandle = 8, visibilityState = Visible, clock = 0, deps = [], queued = False\<rparr>"
  by (simp add: manual_props_def eval_defs)

lemma manual_abort:
  "run manual_props [Start, AnimationFrame 16, AnimationFrame 516, AnimationFrame 1016, Abort]
     (setup_countdown manual_props Visible 0)
   = \<lparr>data = \<lparr>counting = False, endTime = 3000, totalMilliseconds = 2000, requestId = 4\<rparr>,
      emitted = [EvStart, EvProgress 2000, EvAbort], callbacks = [],
      nextHandle = 5, visibilityState = Visible, clock = 0, deps = [], queued = False\<rparr>"
  by (simp add: manual_props_def eval_defs)

lemma late_start:
  "run manual_props [ClockSet 60000, Start] (setup_countdown manual_props Visible 0)
   = \<lparr>data = \<lparr>counting = True, endTime = 3000, totalMilliseconds = 3000, requestId = 1\<rparr>,
      emitted = [EvStart],
      callbacks = [(1, \<lparr>delay = 1000, init = None, prev = None\<rparr>)],
      nextHandle = 2, visibilityState = Visible, clock = 60000, deps = [], queued = False\<rparr>"
  by (simp add: manual_props_def eval_defs)

lemma late_start_resync:
  "run manual_props [ClockSet 60000, Start, VisibilityChange Hidden, VisibilityChange Visible]
     (setup_countdown manual_props Visible 0)
   = \<lparr>data = \<lparr>counting = False, endTime = 3000, totalMilliseconds = 0, requestId = 1\<rparr>,
      emitted = [EvStart, EvEnd], callbacks = [],
      nextHandle = 2, visibilityState = Visible, clock = 60000, deps = [], queued = False\<rparr>"
  by (simp add: manual_props_def eval_defs)


lemma manual_clocked:
  "run manual_ten_second_props (Start # clocked_scenario)
     (setup_countdown manual_ten_second_props Visible 0)
   = \<lparr>data = \<lparr>counting = True, endTime = 10000, totalMilliseconds = 2500, requestId = 9\<rparr>,
      emitted = [EvStart, EvProgress 9000, EvProgress 8000],
      callbacks = [(9, \<lparr>delay = 1000, init = None, prev = None\<rparr>)],
      nextHandle = 10, visibilityState = Visible, clock = 7500, deps = [],
      queued = False\<rparr>"
  by (simp add: manual_ten_second_props_def clocked_scenario_def eval_defs)

text \<open>
  The same with \<open>autoStart\<close>. The effect has read \<open>data.counting\<close> and
  \<open>data.totalMilliseconds\<close> in \<open>start\<close> and \<open>continuance\<close>; the first step writes the
  latter, the effect runs again and sets \<open>totalMilliseconds\<close> back to \<open>time\<close> and \<open>endTime\<close>
  to the clock's reading plus \<open>time\<close>. This run reads \<open>data.counting\<close> only, so the next
  steps count down, until \<open>end\<close> or \<open>abort\<close> clears \<open>counting\<close> and the effect starts the
  countdown anew.
\<close>

lemma auto_run:
  "run example_props (map AnimationFrame example_frames) (setup_countdown example_props Visible 0)
   = \<lparr>data = \<lparr>counting = True, endTime = 3000, totalMilliseconds = 1000, requestId = 10\<rparr>,
      emitted = [EvStart, EvProgress 2000, EvProgress 2000, EvProgress 1000],
      callbacks = [(10, \<lparr>delay = 1000, init = None, prev = None\<rparr>)],
      nextHandle = 11, visibilityState = Visible, clock = 0, deps = [Counting],
      queued = False\<rparr>"
  by (simp add: example_props_def example_frames_def eval_defs)

lemma auto_abort:
  "run example_props [AnimationFrame 16, AnimationFrame 516, AnimationFrame 1016, Abort]
     (setup_countdown example_props Visible 0)
   = \<lparr>data = \<lparr>counting = True, endTime = 3000, totalMilliseconds = 3000, requestId = 5\<rparr>,
      emitted = [EvStart, EvProgress 2000, EvAbort, EvStart],
      callbacks = [(5, \<lparr>delay = 1000, init = None, prev = None\<rparr>)],
      nextHandle = 6, visibilityState = Visible, clock = 0,
      deps = [TotalMilliseconds, Counting], queued = False\<rparr>"
  by (simp add: example_props_def eval_defs)

lemma auto_clocked:
  "run ten_second_props clocked_scenario (setup_countdown ten_second_props Visible 0)
   = \<lparr>data = \<lparr>counting = True, endTime = 11016, totalMilliseconds = 3516, requestId = 9\<rparr>,
      emitted = [EvStart, EvProgress 9000, EvProgress 9000],
      callbacks = [(9, \<lparr>delay = 1000, init = None, prev = None\<rparr>)],
      nextHandle = 10, visibilityState = Visible, clock = 7500, deps = [Counting],
      queued = False\<rparr>"
  by (simp add: ten_second_props_def clocked_scenario_def eval_defs)

lemma hidden_run:
  "run example_props [Progress, Abort, Start, Progress] (setup_countdown example_props Hidden 0)
   = \<lparr>data = \<lparr>counting = True, endTime = 3000, totalMilliseconds = 2000, requestId = 2\<rparr>,
      emitted = [EvStart, EvProgress 2000, EvAbort, EvStart, EvProgress 2000],
      callbacks = [(2, \<lparr>delay = 1000, init = None, prev = None\<rparr>)],
      nextHandle = 3, visibilityState = Hidden, clock = 0, deps = [Counting],
      queued = False\<rparr>"
  by (simp add: example_props_def eval_defs)

section \<open>The remaining time is never negative\<close>

lemma nonneg_cancel:
  "0 \<le> totalMilliseconds (data w) \<Longrightarrow> 0 \<le> totalMilliseconds (data (cancelAnimationFrame h w))"
  by (simp add: cancelAnimationFrame_def)

lemma nonneg_pause:
  "0 \<le> totalMilliseconds (data w) \<Longrightarrow> 0 \<le> totalMilliseconds (data (pause a w))"
  by (simp add: pause_def cancelAnimationFrame_def Let_def)

lemma total_end:
  "counting (data w) \<Longrightarrow> totalMilliseconds (data (end_countdown a p w)) = 0"
  by (simp add: body_defs Let_def)

lemma nonneg_end:
  "0 \<le> totalMilliseconds (data w) \<Longrightarrow> 0 \<le> totalMilliseconds (data (end_countdown a p w))"
  by (simp add: body_defs Let_def)

lemma nonneg_continuance:
  "0 \<le> totalMilliseconds (data w) \<Longrightarrow> 0 \<le> totalMilliseconds (data (continuance a p w))"
  by (simp add: continuance_def requestAnimationFrame_def Let_def nonneg_end)

lemma continuance_exhausted:
  assumes "counting (data w)" "min (totalMilliseconds (data w)) (interval p) \<le> 0"
  shows "totalMilliseconds (data (continuance a p w)) = 0"
  using assms by (auto simp add: continuance_def Let_def total_end min_le_iff_disj)

lemma nonneg_progress:
  "0 \<le> totalMilliseconds (data w) \<Longrightarrow> 0 \<le> totalMilliseconds (data (progress p w))"
proof (cases "counting (data w)")
  case False
  assume "0 \<le> totalMilliseconds (data w)"
  then show ?thesis using False by (simp add: progress_def)
next
  case True
  let ?w1 = "set_totalMilliseconds False (totalMilliseconds (data w) - interval p) w"
  let ?w2 = "if emitEvents p \<and> totalMilliseconds (data ?w1) > 0
             then emit (EvProgress (totalMilliseconds (data ?w1))) ?w1 else ?w1"
  have e: "progress p w = continuance False p ?w2"
    using True by (simp add: progress_def Let_def)
  have c: "counting (data ?w2)"
    and t: "totalMilliseconds (data ?w2) = totalMilliseconds (data w) - interval p"
    using True by (simp_all add: emit_def)
  show ?thesis
  proof (cases "0 \<le> totalMilliseconds (data ?w2)")
    case True
    then show ?thesis unfolding e by (rule nonneg_continuance)
  next
    case False
    then have "min (totalMilliseconds (data ?w2)) (interval p) \<le> 0"
      by (simp add: min_le_iff_disj)
    then show ?thesis
      unfolding e using continuance_exhausted [OF c] by simp
  qed
qed

lemma nonneg_step:
  "0 \<le> totalMilliseconds (data w) \<Longrightarrow> 0 \<le> totalMilliseconds (data (step p c t w))"
  by (simp add: step_def requestAnimationFrame_def Let_def nonneg_progress)

lemma nonneg_start:
  "0 \<le> totalMilliseconds (data w) \<Longrightarrow> 0 \<le> totalMilliseconds (data (start a p w))"
  by (simp add: start_def emit_def Let_def nonneg_continuance)

lemma nonneg_abort:
  "0 \<le> totalMilliseconds (data w) \<Longrightarrow> 0 \<le> totalMilliseconds (data (abort p w))"
  by (simp add: abort_def Let_def emit_def pause_def cancelAnimationFrame_def)

lemma nonneg_update:
  "0 \<le> totalMilliseconds (data w) \<Longrightarrow> 0 \<le> totalMilliseconds (data (update w))"
  by (simp add: update_def)

lemma nonneg_handleVisibilityChange:
  "0 \<le> totalMilliseconds (data w) \<Longrightarrow>
   0 \<le> totalMilliseconds (data (handleVisibilityChange p w))"
  by (simp add: handleVisibilityChange_def nonneg_continuance nonneg_update nonneg_pause
      split: visibility.splits)

lemma nonneg_watchEffect:
  "0 \<le> time p \<Longrightarrow> 0 \<le> totalMilliseconds (data (watchEffect p w))"
  by (simp add: watchEffect_def Let_def nonneg_start)

lemma nonneg_flush:
  "0 \<le> time p \<Longrightarrow> 0 \<le> totalMilliseconds (data w) \<Longrightarrow>
   0 \<le> totalMilliseconds (data (flush p w))"
  by (simp add: flush_def nonneg_watchEffect)

lemma nonneg_animationFrame:
  "0 \<le> time p \<Longrightarrow> 0 \<le> totalMilliseconds (data w) \<Longrightarrow>
   0 \<le> totalMilliseconds (data (animationFrame p t w))"
  by (rule animationFrame_preserves [where P = "\<lambda>w. 0 \<le> totalMilliseconds (data w)"])
    (simp_all add: nonneg_cancel nonneg_step nonneg_flush)

lemma nonneg_perform:
  "0 \<le> time p \<Longrightarrow> 0 \<le> totalMilliseconds (data w) \<Longrightarrow>
   0 \<le> totalMilliseconds (data (perform p x w))"
  by (cases x)
    (simp_all add: nonneg_start nonneg_continuance nonneg_pause nonneg_progress nonneg_abort
      nonneg_end nonneg_update nonneg_handleVisibilityChange nonneg_animationFrame)

lemma nonneg_act:
  "0 \<le> time p \<Longrightarrow> 0 \<le> totalMilliseconds (data w) \<Longrightarrow>
   0 \<le> totalMilliseconds (data (act p x w))"
  by (simp add: act_def nonneg_flush nonneg_perform)

lemma nonneg_run:
  assumes "0 \<le> time p"
  shows "0 \<le> totalMilliseconds (data w) \<Longrightarrow> 0 \<le> totalMilliseconds (data (run p acts w))"
  unfolding run_def
  by (rule fold_preserves [where P = "\<lambda>w. 0 \<le> totalMilliseconds (data w)"])
    (simp_all add: nonneg_act assms)

text \<open>
  C3, as the component behaves. When the configured time is not negative,
  \<open>totalMilliseconds\<close> is not negative in any state that the methods of the component, the
  browser's events and the runs of the effect reach from \<open>setup\<close>; every call and every
  event, with or without the run of the effect that follows it, leaves a non-negative
  \<open>totalMilliseconds\<close> non-negative, and a run of the effect makes it so. (\<open>progress\<close> may
  take the value below zero; the \<open>continuance\<close> it calls before it returns then ends the
  countdown and sets it to zero.)
\<close>

theorem remaining_never_negative:
  assumes "0 \<le> time p"
  shows "0 \<le> totalMilliseconds (data (run p acts (setup_countdown p v clk)))
    \<and> (0 \<le> totalMilliseconds (data w) \<longrightarrow> 0 \<le> totalMilliseconds (data (act p x w)))
    \<and> (0 \<le> totalMilliseconds (data w) \<longrightarrow> 0 \<le> totalMilliseconds (data (perform p x w)))
    \<and> 0 \<le> totalMilliseconds (data (watchEffect p w))"
  using assms
  by (simp add: setup_countdown_def nonneg_run nonneg_watchEffect nonneg_act nonneg_perform)

theorem remaining_never_negative_witness:
  "0 \<le> time example_props
   \<and> 0 \<le> totalMilliseconds (data (run example_props [Progress, Abort, Start, Progress]
        (setup_countdown example_props Hidden 0)))
   \<and> totalMilliseconds (data (run example_props [Progress, Abort, Start, Progress]
        (setup_countdown example_props Hidden 0))) = 2000"
  using remaining_never_negative [of example_props "[Progress, Abort, Start, Progress]" Hidden 0]
  unfolding hidden_run
  by (simp add: example_props_def)

text \<open>
  A time of \<open>-5\<close>, which \<open>setup\<close> takes as it is, leaves \<open>totalMilliseconds = -5\<close> after
  configuration, and the idle component keeps it.
\<close>

theorem negative_time_configured:
  "totalMilliseconds (data (setup_countdown unchecked_props Visible 0)) = - 5
   \<and> \<not> 0 \<le> totalMilliseconds (data (run unchecked_props [Update, Pause, AnimationFrame 16]
        (setup_countdown unchecked_props Visible 0)))"
  by (simp add: unchecked_props_def eval_defs)

section \<open>Progress events carry a positive payload\<close>

lemma pp_same_emitted:
  "emitted w' = emitted w \<Longrightarrow> progress_positive w \<Longrightarrow> progress_positive w'"
  by (simp add: progress_positive_def)

lemma pp_emit:
  "progress_positive w \<Longrightarrow> positive_payload e \<Longrightarrow> progress_positive (emit e w)"
  by (simp add: progress_positive_def emit_def)

lemma pp_cancel: "progress_positive w \<Longrightarrow> progress_positive (cancelAnimationFrame h w)"
  by (simp add: progress_positive_def cancelAnimationFrame_def)

lemma pp_pause: "progress_positive w \<Longrightarrow> progress_positive (pause a w)"
  by (simp add: progress_positive_def pause_def cancelAnimationFrame_def Let_def)

lemma pp_end: "progress_positive w \<Longrightarrow> progress_positive (end_countdown a p w)"
  by (simp add: progress_positive_def body_defs Let_def)

lemma pp_continuance: "progress_positive w \<Longrightarrow> progress_positive (continuance a p w)"
proof -
  assume pp: "progress_positive w"
  have "progress_positive (end_countdown a p w')" if "emitted w' = emitted w" for w'
    using that pp by (intro pp_end) (simp add: progress_positive_def)
  then show ?thesis
    using pp by (simp add: continuance_def requestAnimationFrame_def Let_def)
      (simp add: progress_positive_def)
qed

lemma pp_progress: "progress_positive w \<Longrightarrow> progress_positive (progress p w)"
  by (auto simp add: progress_def Let_def intro!: pp_continuance pp_emit)
    (simp_all add: progress_positive_def)

lemma pp_step: "progress_positive w \<Longrightarrow> progress_positive (step p c t w)"
  using pp_progress [of w p]
  by (simp add: progress_positive_def step_def requestAnimationFrame_def Let_def)

lemma pp_start: "progress_positive w \<Longrightarrow> progress_positive (start a p w)"
  by (auto simp add: start_def Let_def intro!: pp_continuance pp_emit)
    (simp_all add: progress_positive_def)

lemma pp_abort: "progress_positive w \<Longrightarrow> progress_positive (abort p w)"
  by (simp add: progress_positive_def body_defs Let_def)

lemma pp_update: "progress_positive w \<Longrightarrow> progress_positive (update w)"
  by (simp add: progress_positive_def update_def)

lemma pp_handleVisibilityChange:
  "progress_positive w \<Longrightarrow> progress_positive (handleVisibilityChange p w)"
  by (simp add: handleVisibilityChange_def pp_continuance pp_update pp_pause
      split: visibility.splits)

lemma pp_watchEffect: "progress_positive w \<Longrightarrow> progress_positive (watchEffect p w)"
  by (auto simp add: watchEffect_def Let_def intro!: pp_start)
    (simp_all add: progress_positive_def)

lemma pp_flush: "progress_positive w \<Longrightarrow> progress_positive (flush p w)"
proof -
  assume "progress_positive w"
  then have "progress_positive (w\<lparr>queued := False\<rparr>)"
    by (simp add: progress_positive_def)
  then show ?thesis
    using \<open>progress_positive w\<close> by (simp add: flush_def pp_watchEffect)
qed

lemma pp_animationFrame: "progress_positive w \<Longrightarrow> progress_positive (animationFrame p t w)"
  by (rule animationFrame_preserves [where P = progress_positive])
    (simp_all add: pp_cancel pp_step pp_flush)

lemma pp_perform: "progress_positive w \<Longrightarrow> progress_positive (perform p x w)"
proof (cases x)
  case (VisibilityChange v)
  assume "progress_positive w"
  then have "progress_positive (w\<lparr>visibilityState := v\<rparr>)"
    by (simp add: progress_positive_def)
  then show ?thesis
    using VisibilityChange by (simp add: pp_handleVisibilityChange)
next
  case (ClockSet t)
  assume "progress_positive w"
  then show ?thesis
    using ClockSet by (simp add: progress_positive_def)
qed (simp_all add: pp_start pp_continuance pp_pause pp_progress pp_abort pp_end pp_update
    pp_handleVisibilityChange pp_animationFrame)

lemma pp_act: "progress_positive w \<Longrightarrow> progress_positive (act p x w)"
  by (simp add: act_def pp_flush pp_perform)

lemma pp_run: "progress_positive w \<Longrightarrow> progress_positive (run p acts w)"
  unfolding run_def by (rule fold_preserves [where P = progress_positive]) (simp_all add: pp_act)

lemma pp_setup: "progress_positive (setup_countdown p v clk)"
  unfolding setup_countdown_def
  by (rule pp_watchEffect) (simp add: progress_positive_def)

lemma progress_to_zero:
  assumes "counting (data w)" and "totalMilliseconds (data w) = interval p"
  shows "emitted (progress p w) = emitted w @ (if emitEvents p then [EvEnd] else [])"
    and "\<not> counting (data (progress p w))"
    and "totalMilliseconds (data (progress p w)) = 0"
  using assms by (simp_all add: body_defs Let_def)

lemma continuance_at_zero:
  assumes "counting (data w)" and "min (totalMilliseconds (data w)) (interval p) = 0"
  shows "emitted (continuance a p w) = emitted w @ (if emitEvents p then [EvEnd] else [])"
    and "\<not> counting (data (continuance a p w))"
  using assms by (auto simp add: body_defs Let_def min_def split: if_splits)

text \<open>
  C5. The call of \<open>progress\<close> that brings \<open>totalMilliseconds\<close> to exactly zero emits no
  \<open>progress\<close> event: the \<open>continuance\<close> it calls finds no delay left and emits \<open>end\<close>, the
  one event of that call. Every \<open>progress\<close> event that any sequence of method calls,
  browser events and runs of the effect makes the component emit carries a payload above
  zero, and each call or event keeps it so from any state.
\<close>

theorem progress_payload_positive:
  "(counting (data w) \<and> totalMilliseconds (data w) = interval p \<longrightarrow>
      emitted (progress p w) = emitted w @ (if emitEvents p then [EvEnd] else [])
      \<and> \<not> counting (data (progress p w)) \<and> totalMilliseconds (data (progress p w)) = 0)
   \<and> (\<forall>n. EvProgress n \<in> set (emitted (run p acts (setup_countdown p v clk))) \<longrightarrow> 0 < n)
   \<and> (counting (data w) \<and> min (totalMilliseconds (data w)) (interval p) = 0 \<longrightarrow>
      emitted (continuance a p w) = emitted w @ (if emitEvents p then [EvEnd] else [])
      \<and> \<not> counting (data (continuance a p w)))
   \<and> ((\<forall>n. EvProgress n \<in> set (emitted w) \<longrightarrow> 0 < n) \<longrightarrow>
       (\<forall>n. EvProgress n \<in> set (emitted (act p x w)) \<longrightarrow> 0 < n))"
proof -
  have iff: "progress_positive u \<longleftrightarrow> (\<forall>n. EvProgress n \<in> set (emitted u) \<longrightarrow> 0 < n)" for u
  proof
    assume "progress_positive u"
    then show "\<forall>n. EvProgress n \<in> set (emitted u) \<longrightarrow> 0 < n"
      by (auto simp add: progress_positive_def list_all_iff)
  next
    assume a: "\<forall>n. EvProgress n \<in> set (emitted u) \<longrightarrow> 0 < n"
    have "positive_payload e" if "e \<in> set (emitted u)" for e
    proof (cases e)
      case (EvProgress n)
      then show ?thesis using that a by simp
    qed simp_all
    then show "progress_positive u"
      by (simp add: progress_positive_def list_all_iff)
  qed
  have "progress_positive (run p acts (setup_countdown p v clk))"
    by (rule pp_run) (rule pp_setup)
  then have r: "\<forall>n. EvProgress n \<in> set (emitted (run p acts (setup_countdown p v clk))) \<longrightarrow> 0 < n"
    by (simp only: iff)
  have s: "(\<forall>n. EvProgress n \<in> set (emitted w) \<longrightarrow> 0 < n) \<longrightarrow>
       (\<forall>n. EvProgress n \<in> set (emitted (act p x w)) \<longrightarrow> 0 < n)"
    using pp_act [of w p x] by (simp only: iff) blast
  show ?thesis
    using r s progress_to_zero [of w p] continuance_at_zero [of w p a] by blast
qed

theorem progress_payload_positive_witness:
  "counting (data (run manual_props
        (Start # map AnimationFrame [16, 516, 1016, 1032, 1532, 2032])
        (setup_countdown manual_props Visible 0)))
   \<and> totalMilliseconds (data (run manual_props
        (Start # map AnimationFrame [16, 516, 1016, 1032, 1532, 2032])
        (setup_countdown manual_props Visible 0))) = interval manual_props
   \<and> emitted (progress manual_props (run manual_props
        (Start # map AnimationFrame [16, 516, 1016, 1032, 1532, 2032])
        (setup_countdown manual_props Visible 0)))
     = [EvStart, EvProgress 2000, EvProgress 1000, EvEnd]"
  using progress_payload_positive [of "run manual_props
        (Start # map AnimationFrame [16, 516, 1016, 1032, 1532, 2032])
        (setup_countdown manual_props Visible 0)" manual_props "[]" Visible 0]
  unfolding manual_two_ticks
  by (simp add: manual_props_def)

section \<open>A run from start to end\<close>





























section \<open>Starting\<close>

lemma start_counting: "counting (data w) \<Longrightarrow> start False p w = w"
  by (simp add: start_def)

lemma start_emitted:
  "\<not> counting (data w) \<Longrightarrow> emitted (start a p w) = emitted w @
     (if emitEvents p
      then EvStart # (if visibilityState w = Visible
                        \<and> min (totalMilliseconds (data w)) (interval p) \<le> 0 then [EvEnd] else [])
      else [])"
  by (auto simp add: body_defs Let_def min_le_iff_disj)

lemma start_hidden:
  assumes "\<not> counting (data w)" "visibilityState w = Hidden"
  shows "counting (data (start a p w))" "callbacks (start a p w) = callbacks w"
    "totalMilliseconds (data (start a p w)) = totalMilliseconds (data w)"
  using assms by (simp_all add: body_defs Let_def)

lemma start_visible:
  assumes "\<not> counting (data w)" "visibilityState w = Visible"
    "0 < min (totalMilliseconds (data w)) (interval p)"
  shows "counting (data (start a p w))"
    "callbacks (start a p w) = callbacks w @ [(nextHandle w,
       \<lparr>delay = min (totalMilliseconds (data w)) (interval p), init = None, prev = None\<rparr>)]"
    "requestId (data (start a p w)) = nextHandle w"
    "totalMilliseconds (data (start a p w)) = totalMilliseconds (data w)"
  using assms by (simp_all add: body_defs Let_def)

lemma start_endTime: "endTime (data (start a p w)) = endTime (data w)"
  by (simp add: body_defs Let_def)

text \<open>
  C2. \<open>start\<close> is to set \<open>endTime\<close> to the clock's reading plus the remaining time when it
  starts the countdown. It does nothing while counting, emits \<open>start\<close> and registers a
  callback on a visible document only (the lemmas above), but it never writes \<open>endTime\<close>. Configured at clock 0 without
  \<open>autoStart\<close> and started at clock 60000, the component counts 3000 milliseconds with
  \<open>endTime = 3000\<close>, not 63000; when the document is hidden and shown again, \<open>update\<close>
  finds the end time long past and the countdown ends at once.
\<close>

theorem late_start_keeps_endTime:
  "counting (data (run manual_props [ClockSet 60000, Start]
      (setup_countdown manual_props Visible 0)))
   \<and> clock (run manual_props [ClockSet 60000, Start] (setup_countdown manual_props Visible 0))
      = 60000
   \<and> totalMilliseconds (data (run manual_props [ClockSet 60000, Start]
      (setup_countdown manual_props Visible 0))) = 3000
   \<and> endTime (data (run manual_props [ClockSet 60000, Start]
      (setup_countdown manual_props Visible 0))) = 3000
   \<and> emitted (run manual_props
        [ClockSet 60000, Start, VisibilityChange Hidden, VisibilityChange Visible]
        (setup_countdown manual_props Visible 0)) = [EvStart, EvEnd]
   \<and> totalMilliseconds (data (run manual_props
        [ClockSet 60000, Start, VisibilityChange Hidden, VisibilityChange Visible]
        (setup_countdown manual_props Visible 0))) = 0"
  unfolding late_start late_start_resync by simp

section \<open>Props that fail their validators\<close>

lemma invalid_visible:
  assumes "time p < 0 \<or> interval p < 0" "autoStart p"
  shows "setup_countdown p Visible clk =
     \<lparr>data = \<lparr>counting = False, endTime = clk + time p, totalMilliseconds = 0, requestId = 0\<rparr>,
      emitted = (if emitEvents p then [EvStart, EvEnd] else []), callbacks = [],
      nextHandle = 1, visibilityState = Visible, clock = clk,
      deps = [RequestId, TotalMilliseconds, Counting], queued = False\<rparr>"
  using assms by (auto simp add: effect_defs)

lemma auto_hidden:
  assumes "autoStart p"
  shows "setup_countdown p Hidden clk =
     \<lparr>data = \<lparr>counting = True, endTime = clk + time p, totalMilliseconds = time p, requestId = 0\<rparr>,
      emitted = (if emitEvents p then [EvStart] else []), callbacks = [],
      nextHandle = 1, visibilityState = Hidden, clock = clk, deps = [Counting],
      queued = False\<rparr>"
  using assms by (simp add: effect_defs)

text \<open>
  C6, as the component behaves. The validators accept exactly the values from zero up.
  \<open>setup\<close> does not consult them and has no error to raise: with a negative time or
  interval and \<open>autoStart\<close>, on a visible document the component starts, finds no delay left
  and ends at once, idle with \<open>totalMilliseconds = 0\<close> after \<open>start\<close> and \<open>end\<close>; on a hidden
  document it is left counting with \<open>totalMilliseconds = time\<close> and no callback registered.
\<close>

theorem invalid_configuration_runs:
  "(time_validator (time p) \<longleftrightarrow> 0 \<le> time p)
   \<and> (interval_validator (interval p) \<longleftrightarrow> 0 \<le> interval p)
   \<and> ((time p < 0 \<or> interval p < 0) \<and> autoStart p \<longrightarrow>
        setup_countdown p Visible clk =
          \<lparr>data = \<lparr>counting = False, endTime = clk + time p, totalMilliseconds = 0,
                   requestId = 0\<rparr>,
           emitted = (if emitEvents p then [EvStart, EvEnd] else []), callbacks = [],
           nextHandle = 1, visibilityState = Visible, clock = clk,
           deps = [RequestId, TotalMilliseconds, Counting], queued = False\<rparr>
        \<and> setup_countdown p Hidden clk =
          \<lparr>data = \<lparr>counting = True, endTime = clk + time p, totalMilliseconds = time p,
                   requestId = 0\<rparr>,
           emitted = (if emitEvents p then [EvStart] else []), callbacks = [],
           nextHandle = 1, visibilityState = Hidden, clock = clk, deps = [Counting],
           queued = False\<rparr>)"
  using invalid_visible [of p clk] auto_hidden [of p clk]
  by (simp add: time_validator_def interval_validator_def)

theorem invalid_configuration_runs_witness:
  "(time negative_props < 0 \<or> interval negative_props < 0) \<and> autoStart negative_props
   \<and> \<not> time_validator (time negative_props)
   \<and> emitted (setup_countdown negative_props Visible 0) = [EvStart, EvEnd]
   \<and> totalMilliseconds (data (setup_countdown negative_props Visible 0)) = 0"
  using invalid_configuration_runs [of negative_props 0]
  by (simp add: negative_props_def)

text \<open>
  A time of \<open>-5\<close> fails its validator, and the component counts with it on a hidden
  document; on a visible one it starts and ends.
\<close>

theorem negative_time_counts:
  "\<not> time_validator (time negative_props)
   \<and> counting (data (setup_countdown negative_props Hidden 0))
   \<and> totalMilliseconds (data (setup_countdown negative_props Hidden 0)) = - 5
   \<and> emitted (setup_countdown negative_props Visible 0) = [EvStart, EvEnd]"
  by (simp add: negative_props_def time_validator_def eval_defs)

section \<open>Resynchronising with the clock\<close>

lemma update_counting:
  assumes "counting (data w)"
  shows "data (update w)
    = (data w)\<lparr>totalMilliseconds := max 0 (endTime (data w) - clock w)\<rparr>"
  using assms by (simp add: update_def)

lemma update_idle: "\<not> counting (data w) \<Longrightarrow> update w = w"
  by (simp add: update_def)

text \<open>
  C7. After ten seconds in steps of one were started at clock 0, the document hidden at
  2500 and shown at 7500, the remaining time is to be 2500. \<open>update\<close> does set it to
  \<open>max 0 (endTime - now())\<close> (the two lemmas above), but with \<open>autoStart\<close> the effect has run
  again after the first step, at clock 1016, and moved \<open>endTime\<close> to 11016: the remaining
  time is 3516. Started by a call of \<open>start\<close>, on the same frames and clock, \<open>endTime\<close> stays
  10000 and the remaining time is 2500.
\<close>

theorem resync_after_rerun:
  "endTime (data (run ten_second_props clocked_scenario
      (setup_countdown ten_second_props Visible 0))) = 11016
   \<and> totalMilliseconds (data (run ten_second_props clocked_scenario
      (setup_countdown ten_second_props Visible 0))) = 3516
   \<and> endTime (data (run manual_ten_second_props (Start # clocked_scenario)
      (setup_countdown manual_ten_second_props Visible 0))) = 10000
   \<and> totalMilliseconds (data (run manual_ten_second_props (Start # clocked_scenario)
      (setup_countdown manual_ten_second_props Visible 0))) = 2500"
  unfolding auto_clocked manual_clocked by simp

section \<open>Aborting and resuming\<close>

lemma abort_idle: "\<not> counting (data w) \<Longrightarrow> abort p w = w"
  by (simp add: abort_def)

lemma abort_counting:
  assumes "counting (data w)"
  shows "data (abort p w) = (data w)\<lparr>counting := False\<rparr>"
    and "callbacks (abort p w) = filter (\<lambda>hc. fst hc \<noteq> requestId (data w)) (callbacks w)"
    and "emitted (abort p w) = emitted w @ (if emitEvents p then [EvAbort] else [])"
    and "queued (abort p w) = (queued w \<or> Counting \<in> set (deps w))"
  using assms
  by (simp_all add: abort_def pause_def cancelAnimationFrame_def emit_def set_counting_def
      trigger_idle Let_def)

text \<open>
  C8. After \<open>abort\<close> the component is to be idle with the remaining time kept. \<open>abort\<close>
  itself does that (the two lemmas above), but with \<open>autoStart\<close> its write to
  \<open>data.counting\<close> makes the effect run again: after one step of three seconds and
  \<open>abort\<close>, the component counts again, from 3000, having emitted \<open>start\<close> after \<open>abort\<close>.
  Started by a call of \<open>start\<close>, it is idle at 2000 after \<open>abort\<close>.
\<close>

theorem abort_undone_by_effect:
  "counting (data (run example_props
      [AnimationFrame 16, AnimationFrame 516, AnimationFrame 1016, Abort]
      (setup_countdown example_props Visible 0)))
   \<and> totalMilliseconds (data (run example_props
      [AnimationFrame 16, AnimationFrame 516, AnimationFrame 1016, Abort]
      (setup_countdown example_props Visible 0))) = 3000
   \<and> emitted (run example_props
      [AnimationFrame 16, AnimationFrame 516, AnimationFrame 1016, Abort]
      (setup_countdown example_props Visible 0))
     = [EvStart, EvProgress 2000, EvAbort, EvStart]
   \<and> \<not> counting (data (run manual_props
      [Start, AnimationFrame 16, AnimationFrame 516, AnimationFrame 1016, Abort]
      (setup_countdown manual_props Visible 0)))
   \<and> totalMilliseconds (data (run manual_props
      [Start, AnimationFrame 16, AnimationFrame 516, AnimationFrame 1016, Abort]
      (setup_countdown manual_props Visible 0))) = 2000
   \<and> emitted (run manual_props
      [Start, AnimationFrame 16, AnimationFrame 516, AnimationFrame 1016, Abort]
      (setup_countdown manual_props Visible 0))
     = [EvStart, EvProgress 2000, EvAbort]"
  unfolding auto_abort manual_abort by simp

section \<open>No interval or no time\<close>





end
